theory Spec2Isabelle
  imports Main
begin

section \<open>Python strings\<close>

text \<open>
  A Python \<open>str\<close> is a sequence of characters and \<open>len\<close> counts them. A \<open>str\<close> is modelled
  as a \<^typ>\<open>string\<close>, one \<^typ>\<open>char\<close> for each character; the literals of the two scripts
  that take part in the computations below are ASCII. Of the sentences of a corpus only
  the number of characters is used, never which characters they are.

  \<open>str.strip()\<close> removes the characters for which \<open>str.isspace\<close> holds from both ends.
  Among the 256 values of \<^typ>\<open>char\<close> these are the code points 9 to 13, 28 to 32, 133
  and 160.
\<close>

definition isspace :: "char \<Rightarrow> bool" where
  "isspace c \<longleftrightarrow> c \<in> set [CHR 0x09, CHR 0x0A, CHR 0x0B, CHR 0x0C, CHR 0x0D,
     CHR 0x1C, CHR 0x1D, CHR 0x1E, CHR 0x1F, CHR 0x20, CHR 0x85, CHR 0xA0]"

definition strip :: "string \<Rightarrow> string" where
  "strip s = rev (dropWhile isspace (rev (dropWhile isspace s)))"

text \<open>
  \<open>s.split(d)\<close> for a one-character separator: the pieces between the separators, empty
  pieces included, so that a string with \<open>k\<close> separators has \<open>k + 1\<close> pieces.
\<close>

fun py_split :: "char \<Rightarrow> string \<Rightarrow> string list" where
  "py_split d [] = [[]]"
| "py_split d (c # cs) =
     (if c = d then [] # py_split d cs
      else (case py_split d cs of [] \<Rightarrow> [[c]] | w # ws \<Rightarrow> (c # w) # ws))"

text \<open>\<open>sep.join(xs)\<close>.\<close>

fun join :: "string \<Rightarrow> string list \<Rightarrow> string" where
  "join sep [] = []"
| "join sep [x] = x"
| "join sep (x # y # ys) = x @ sep @ join sep (y # ys)"

text \<open>\<open>str(n)\<close> for a non-negative integer: its decimal digits, as the f-string renders it.\<close>

definition digit_char :: "nat \<Rightarrow> char" where
  "digit_char n = char_of (48 + n)"

function str_nat :: "nat \<Rightarrow> string" where
  "str_nat n = (if n < 10 then [digit_char n] else str_nat (n div 10) @ [digit_char (n mod 10)])"
  by pat_completeness auto
termination
  by (relation "measure (\<lambda>n. n)") auto

declare str_nat.simps [simp del]

section \<open>The data model\<close>

text \<open>
  The dictionaries of the annotation format, with the keys the scripts read and write.
  A mention's \<open>pos\<close> is the two-element list \<open>[start, end]\<close> of the source.
\<close>

record mention =
  name :: string
  sent_id :: int
  type :: string
  pos :: "int list"

record label =
  h :: int
  t :: int
  r :: string

text \<open>
  A record of the corpus has the four annotation fields; a document of a fixture file
  has an \<open>id\<close> besides them.
\<close>

record candidate =
  title :: string
  sents :: "string list list"
  vertexSet :: "mention list list"
  labels :: "label list"

record document = candidate +
  doc_id :: string

section \<open>Segmenter (\<open>create_long_test_doc.py\<close>, lines 107 to 114)\<close>

text \<open>
  \<^verbatim>\<open>sentences = [s.strip() for s in full_text.split('.') if s.strip()]\<close>
\<close>

definition sentences_of :: "string \<Rightarrow> string list" where
  "sentences_of text = [strip s. s \<leftarrow> py_split CHR ''.'' text, strip s \<noteq> []]"

text \<open>
  The loop \<^verbatim>\<open>for i in range(0, len(sentences), 4)\<close>, from index \<open>i\<close> on: the slice
  \<open>sentences[i:i+4]\<close>, each of its non-empty members with the terminator appended.
\<close>

function paragraphs_from :: "nat \<Rightarrow> string list \<Rightarrow> string list list" where
  "paragraphs_from i sentences =
     (if i < length sentences
      then [s @ ''.''. s \<leftarrow> take 4 (drop i sentences), s \<noteq> []] # paragraphs_from (i + 4) sentences
      else [])"
  by pat_completeness auto
termination
  by (relation "measure (\<lambda>(i, sentences). length sentences - i)") auto

declare paragraphs_from.simps [simp del]

definition segment :: "string \<Rightarrow> string list list" where
  "segment text = paragraphs_from 0 (sentences_of text)"

section \<open>DocumentAssembler (\<open>create_long_test_doc.py\<close>, lines 10 to 145)\<close>

text \<open>
  The text literal of lines 14 to 105, line by line: the literal opens with a line
  break and every line of it ends with one.
\<close>

definition full_text :: string where
  \<open>full_text = concat
    [''\<newline>'',
     ''Marie Curie was born Maria Sklodowska on November 7, 1867, in Warsaw, Poland, which was then part of the Russian Empire.\<newline>'',
     ''She was the youngest of five children born to Wladyslaw Sklodowski and Bronislawa Sklodowska. Her father was a mathematics\<newline>'',
     ''and physics teacher at a gymnasium, while her mother was a teacher, pianist, and singer who ran a prestigious boarding school\<newline>'',
     ''for girls in Warsaw. The family faced significant financial difficulties after her father lost his teaching position for pro-Polish\<newline>'',
     ''sentiments and her mother died of tuberculosis when Maria was ten years old.\<newline>'',
     ''\<newline>'',
     ''During her childhood, Maria showed exceptional intelligence and a remarkable memory that impressed her teachers and family.\<newline>'',
     ''She completed her secondary education at a girls' gymnasium in Warsaw at the age of 15 with top honors, earning a gold medal.\<newline>'',
     ''However, as a woman living in occupied Poland under Russian rule, she was not permitted to attend the male-only University\<newline>'',
     ''of Warsaw or any other traditional institution of higher education. Determined to pursue her education, she took classes from\<newline>'',
     ''a clandestine institution known as the Flying University, which held classes in changing locations to avoid Russian authorities.\<newline>'',
     ''This underground organization admitted women students and promoted Polish culture and scientific education.\<newline>'',
     ''\<newline>'',
     ''From 1885 to 1889, Maria worked as a governess\<newline>'',
     ''\<newline>'',
     ''During her childhood, Maria showed exceptional intelligence and a remarkable\<newline>'',
     ''memory. She completed high school at the age of 15 with top honors. However,\<newline>'',
     ''as a woman in occupied Poland, she was not permitted to attend the male-only\<newline>'',
     ''University of Warsaw. She took classes from a clandestine university  that\<newline>'',
     ''admitted women students called the Flying University.\<newline>'',
     ''\<newline>'',
     ''In 1891, at the age of 24, Maria left Poland to study physics and mathematics\<newline>'',
     ''at the University of Paris, also known as the Sorbonne. She enrolled in the\<newline>'',
     ''Faculty of Science and worked extremely hard to overcome the language barrier\<newline>'',
     ''and gaps in her scientific education. She lived in poverty during this time,\<newline>'',
     ''often surviving on bread and tea while studying in the library until it closed.\<newline>'',
     ''\<newline>'',
     ''In 1893, Maria earned her degree in physics with top marks. She then earned\<newline>'',
     ''a second degree in mathematics in 1894. While working in a laboratory, she met\<newline>'',
     ''Pierre Curie, a French physicist who was teaching at the School of Physics and\<newline>'',
     ''Chemistry. They married in 1895 in a simple civil ceremony.\<newline>'',
     ''\<newline>'',
     ''Marie Curie became fascinated by Henri Becquerel's discovery of mysterious rays\<newline>'',
     ''from uranium in 1896. She decided to investigate these rays as the subject of\<newline>'',
     ''her doctoral thesis. Using an electrometer invented by Pierre and his brother,\<newline>'',
     ''she discovered that the rays were properties of the element uranium itself,\<newline>'',
     ''not dependent on its form or compounds.\<newline>'',
     ''\<newline>'',
     ''In 1898, Marie and Pierre Curie discovered two new radioactive elements. The first\<newline>'',
     ''was polonium, which Marie named after her homeland Poland. The second was radium,\<newline>'',
     ''which they finally isolated in pure form in 1902 after processing tons of pitchblende\<newline>'',
     ''ore. The work was extremely dangerous and physically exhausting.\<newline>'',
     ''\<newline>'',
     ''In 1903, Marie Curie became the first woman to earn a doctorate in France. That\<newline>'',
     ''same year, she shared the Nobel Prize in Physics with Pierre Curie and Henri\<newline>'',
     ''Becquerel for their work on radioactivity. She was the first woman to win a Nobel\<newline>'',
     ''Prize and the first person to win Nobel Prizes in two different sciences.\<newline>'',
     ''\<newline>'',
     ''Tragedy struck in 1906 when Pierre Curie was killed in a street accident in Paris.\<newline>'',
     ''Despite her grief, Marie took over his teaching position at the Sorbonne, becoming\<newline>'',
     ''the first woman to teach there. She continued her research\<newline>'',
     '' with determination.\<newline>'',
     ''\<newline>'',
     ''In 1911, Marie Curie won her second Nobel Prize, this time in Chemistry, for\<newline>'',
     ''her discovery and isolation of pure radium and polonium. She was the first person\<newline>'',
     ''ever to win two Nobel Prizes. She used the prize money to fund her research at\<newline>'',
     ''the Radium Institute in Paris, which she helped establish in 1914.\<newline>'',
     ''\<newline>'',
     ''During World War I, Marie Curie developed mobile radiography units to provide\<newline>'',
     ''X-ray services to field hospitals. She personally drove these units, known as\<newline>'',
     ''"petites Curies," to the front lines. She also trained other women to operate\<newline>'',
     ''the equipment. Over one million soldiers were examined using her X-ray units.\<newline>'',
     ''\<newline>'',
     ''After the war, Marie Curie became the director of the Curie Laboratory at the\<newline>'',
     ''Radium Institute. She traveled to the United States in 1921 to raise funds for\<newline>'',
     ''radium research. President Warren Harding presented her with one gram of radium,\<newline>'',
     ''purchased by American women through a nationwide campaign.\<newline>'',
     ''\<newline>'',
     ''Throughout her career, Marie Curie published numerous scientific papers and books.\<newline>'',
     ''She trained many students who became prominent scientists themselves. She was\<newline>'',
     ''appointed Director of the Curie Laboratory in Paris and held this position until\<newline>'',
     ''her death. She promoted international scientific cooperation and served on many\<newline>'',
     ''scientific committees.\<newline>'',
     ''\<newline>'',
     ''Marie Curie's long exposure to radioactive materials without proper protection\<newline>'',
     ''took its toll on her health. She developed cataracts and suffered from various\<newline>'',
     ''illnesses related to radiation exposure. On July 4, 1934, she died of aplastic\<newline>'',
     ''anemia at a sanatorium in Passy, France.\<newline>'',
     ''\<newline>'',
     ''Marie Curie's legacy extends far beyond her scientific discoveries. She paved\<newline>'',
     ''the way for women in science and showed that determination and intellect have\<newline>'',
     ''no gender. Her daughter Irene Joliot-Curie also won the Nobel Prize in Chemistry\<newline>'',
     ''in 1935. In 1995, Marie Curie became the first woman to be entombed on her own\<newline>'',
     ''merits in the Pantheon in Paris.\<newline>'',
     ''\<newline>'',
     ''Today, the Curie family holds the record for Nobel Prize wins, with five prizes\<newline>'',
     ''among family members. Marie Curie's notebooks are still radioactive and are kept\<newline>'',
     ''in lead-lined boxes. The unit of radioactivity, the curie, is named in her honor.\<newline>'',
     ''Her life story continues to inspire scientists, especially women in STEM fields,\<newline>'',
     ''around the world.\<newline>'']
  \<close>

text \<open>The entity table of lines 117 to 126 and the relation table of lines 129 to 137.\<close>

definition curie_vertexSet :: "mention list list" where
  "curie_vertexSet =
    [[\<lparr>name = ''Marie Curie'', sent_id = 0, type = ''PER'', pos = [0, 2]\<rparr>],
     [\<lparr>name = ''Warsaw'', sent_id = 0, type = ''LOC'', pos = [10, 11]\<rparr>],
     [\<lparr>name = ''Poland'', sent_id = 0, type = ''LOC'', pos = [12, 13]\<rparr>],
     [\<lparr>name = ''University of Paris'', sent_id = 2, type = ''ORG'', pos = [8, 11]\<rparr>],
     [\<lparr>name = ''Pierre Curie'', sent_id = 3, type = ''PER'', pos = [5, 7]\<rparr>],
     [\<lparr>name = ''France'', sent_id = 4, type = ''LOC'', pos = [12, 13]\<rparr>],
     [\<lparr>name = ''Radium Institute'', sent_id = 10, type = ''ORG'', pos = [8, 10]\<rparr>],
     [\<lparr>name = ''Paris'', sent_id = 10, type = ''LOC'', pos = [11, 12]\<rparr>]]"

definition curie_labels :: "label list" where
  "curie_labels =
    [\<lparr>h = 0, t = 1, r = ''P19''\<rparr>,
     \<lparr>h = 0, t = 2, r = ''P27''\<rparr>,
     \<lparr>h = 0, t = 3, r = ''P69''\<rparr>,
     \<lparr>h = 1, t = 2, r = ''P17''\<rparr>,
     \<lparr>h = 4, t = 0, r = ''P26''\<rparr>,
     \<lparr>h = 0, t = 5, r = ''P20''\<rparr>,
     \<lparr>h = 7, t = 5, r = ''P17''\<rparr>]"

text \<open>
  The dictionary returned at lines 139 to 145, as a function of the three values it is
  built from. Nothing is checked on the way: the function has no branch and no
  \<open>raise\<close>.
\<close>

definition assemble :: "string list list \<Rightarrow> mention list list \<Rightarrow> label list \<Rightarrow> document" where
  "assemble paragraphs entities relations =
     \<lparr>title = ''Marie Curie (Long Article)'', sents = paragraphs, vertexSet = entities,
      labels = relations, doc_id = ''long_doc_marie_curie''\<rparr>"

definition create_long_test_document :: document where
  "create_long_test_document = assemble (segment full_text) curie_vertexSet curie_labels"

section \<open>Summary statistics (\<open>create_long_test_doc.py\<close> lines 151 to 154, \<open>fetch_docred.py\<close> lines 28 to 35 and 68 to 70)\<close>

text \<open>
  Both scripts flatten the paragraphs, join the sentences with single spaces and count
  the characters; the token estimate is that count integer-divided by 4. \<open>len\<close> is never
  negative, so the counts are natural numbers, on which \<open>//\<close> is \<open>div\<close>.
\<close>

definition sents_flat :: "'a candidate_scheme \<Rightarrow> string list" where
  "sents_flat doc = concat (sents doc)"

definition char_count :: "'a candidate_scheme \<Rightarrow> nat" where
  "char_count doc = length (join '' '' (sents_flat doc))"

definition token_estimate :: "'a candidate_scheme \<Rightarrow> nat" where
  "token_estimate doc = char_count doc div 4"

text \<open>The condition printed as \<open>Will trigger chunking\<close>.\<close>

definition triggers_chunking :: "'a candidate_scheme \<Rightarrow> bool" where
  "triggers_chunking doc \<longleftrightarrow> token_estimate doc > 2000"

section \<open>The invariants of the data model\<close>

text \<open>
  Neither script has code for the invariants; they are predicates on a document,
  written here to state which of them hold of the documents the scripts build.
  Invariant 1: every label has \<open>0 \<le> h, t < len(vertexSet)\<close> and \<open>h \<noteq> t\<close>.
  Invariant 2: every mention has \<open>0 \<le> sent_id <\<close> the flattened sentence count.
  Invariant 3: every mention's \<open>pos\<close> is \<open>[start, end]\<close> with \<open>0 \<le> start < end\<close>.
  Invariant 4: every entity cluster has a mention.
  Invariant 5: the id is not empty, and no two entries of a collection have the same id.
\<close>

definition label_ok :: "document \<Rightarrow> label \<Rightarrow> bool" where
  "label_ok doc l \<longleftrightarrow>
     0 \<le> h l \<and> h l < int (length (vertexSet doc)) \<and>
     0 \<le> t l \<and> t l < int (length (vertexSet doc)) \<and> h l \<noteq> t l"

definition sent_id_ok :: "document \<Rightarrow> mention \<Rightarrow> bool" where
  "sent_id_ok doc m \<longleftrightarrow> 0 \<le> sent_id m \<and> sent_id m < int (length (sents_flat doc))"

definition pos_ok :: "mention \<Rightarrow> bool" where
  "pos_ok m = (case pos m of [start, end] \<Rightarrow> 0 \<le> start \<and> start < end | _ \<Rightarrow> False)"

definition invariant1 :: "document \<Rightarrow> bool" where
  "invariant1 doc = list_all (label_ok doc) (labels doc)"

definition invariant2 :: "document \<Rightarrow> bool" where
  "invariant2 doc = list_all (list_all (sent_id_ok doc)) (vertexSet doc)"

definition invariant3 :: "document \<Rightarrow> bool" where
  "invariant3 doc = list_all (list_all pos_ok) (vertexSet doc)"

definition invariant4 :: "document \<Rightarrow> bool" where
  "invariant4 doc = list_all (\<lambda>cluster. cluster \<noteq> []) (vertexSet doc)"

definition id_nonempty :: "document \<Rightarrow> bool" where
  "id_nonempty doc \<longleftrightarrow> doc_id doc \<noteq> []"

section \<open>The fixture files\<close>

text \<open>
  What \<open>json.load\<close> returns and \<open>json.dump\<close> takes: \<open>None\<close>, booleans, integers, strings,
  lists and dictionaries with string keys (numbers with a fraction do not occur in the
  documents and are left out).
\<close>

datatype json =
  JNull
| JBool bool
| JInt int
| JStr string
| JList "json list"
| JDict "(string \<times> json) list"

text \<open>The dictionaries of the data model as such values, keys in the order of the source.\<close>

definition json_of_mention :: "mention \<Rightarrow> json" where
  "json_of_mention m =
     JDict [(''name'', JStr (name m)), (''sent_id'', JInt (sent_id m)),
            (''type'', JStr (type m)), (''pos'', JList (map JInt (pos m)))]"

definition json_of_label :: "label \<Rightarrow> json" where
  "json_of_label l = JDict [(''h'', JInt (h l)), (''t'', JInt (t l)), (''r'', JStr (r l))]"

definition json_of_document :: "document \<Rightarrow> json" where
  "json_of_document doc =
     JDict [(''id'', JStr (doc_id doc)), (''title'', JStr (title doc)),
            (''sents'', JList (map (\<lambda>para. JList (map JStr para)) (sents doc))),
            (''vertexSet'', JList (map (\<lambda>cluster. JList (map json_of_mention cluster)) (vertexSet doc))),
            (''labels'', JList (map json_of_label (labels doc)))]"

text \<open>
  A file is modelled by what \<open>json.load\<close> does on it: it raises (\<open>NotJson\<close>: the contents
  are not well-formed JSON) or it returns a value. \<open>json.dump\<close> of a value writes a file
  on which \<open>json.load\<close> returns that value; this property of the \<open>json\<close> module is part
  of the model.

  The file system maps a path to what opening it meets. \<open>None\<close>: there is no file at the path,
  and opening the path for writing creates one. \<open>NoDirectory\<close>: the directory of the path
  does not exist, so that there is no file at the path and none can be created. Otherwise
  there is a file; its directory exists then, and opening the path for writing replaces
  the file. Opening for reading raises \<open>FileNotFoundError\<close> in the first two cases, opening
  for writing in the second.
\<close>

datatype path_entry = NoDirectory | NotJson | Json json

type_synonym files = "string \<Rightarrow> path_entry option"

text \<open>The id of an entry of a collection, when the entry is a dictionary with a string \<open>id\<close>.\<close>

definition entry_id :: "json \<Rightarrow> string option" where
  "entry_id e = (case e of JDict kvs \<Rightarrow> (case map_of kvs ''id'' of Some (JStr s) \<Rightarrow> Some s | _ \<Rightarrow> None)
                 | _ \<Rightarrow> None)"

definition ids_unique :: "json list \<Rightarrow> bool" where
  "ids_unique entries = distinct (List.map_filter entry_id entries)"

section \<open>FixtureStore (\<open>create_long_test_doc.py\<close>, lines 165 to 176)\<close>

text \<open>
  \<^verbatim>\<open>try: with open(output_path, 'r') as f: existing_docs = json.load(f)\<close>
  \<^verbatim>\<open>except: existing_docs = []\<close>
  A missing file (in a directory that exists or not) and a file that is not JSON both
  raise inside the \<open>try\<close>; the value of a file that is JSON is taken as it is.
\<close>

definition load_existing :: "files \<Rightarrow> string \<Rightarrow> json" where
  "load_existing fs path = (case fs path of Some (Json v) \<Rightarrow> v | _ \<Rightarrow> JList [])"

text \<open>
  \<open>existing_docs.append(doc)\<close> stands outside the \<open>try\<close>: only a list has \<open>append\<close>, any
  other value raises \<open>AttributeError\<close>, which ends the run before the file is opened for
  writing. \<^verbatim>\<open>open(output_path, 'w')\<close> at line 175 stands outside the \<open>try\<close> as well: when
  the directory of the path does not exist it raises \<open>FileNotFoundError\<close>, which ends the
  run with nothing written.
\<close>

datatype error = AttributeError | FileNotFoundError

definition py_append :: "json \<Rightarrow> json \<Rightarrow> error + json" where
  "py_append v x = (case v of JList xs \<Rightarrow> Inr (JList (xs @ [x])) | _ \<Rightarrow> Inl AttributeError)"

definition append_and_save :: "string \<Rightarrow> document \<Rightarrow> files \<Rightarrow> error + files" where
  "append_and_save path doc fs =
     (case py_append (load_existing fs path) (json_of_document doc) of
        Inl e \<Rightarrow> Inl e
      | Inr existing_docs \<Rightarrow>
          (if fs path = Some NoDirectory then Inl FileNotFoundError
           else Inr (fs(path \<mapsto> Json existing_docs))))"

definition output_path_create :: string where
  "output_path_create = ''tests/fixtures/docred_sample.json''"

definition create_main :: "files \<Rightarrow> error + files" where
  "create_main fs = append_and_save output_path_create create_long_test_document fs"

text \<open>Runs of the store step one after another, one document each, stopping at an error.\<close>

fun append_and_save_all :: "string \<Rightarrow> document list \<Rightarrow> files \<Rightarrow> error + files" where
  "append_and_save_all path [] fs = Inr fs"
| "append_and_save_all path (doc # docs) fs =
     (case append_and_save path doc fs of
        Inl e \<Rightarrow> Inl e
      | Inr fs' \<Rightarrow> append_and_save_all path docs fs')"

section \<open>CorpusFilter (\<open>fetch_docred.py\<close>, lines 25 to 59)\<close>

text \<open>The condition of line 37 on the four metrics of lines 28 to 35.\<close>

definition qualifies :: "'a candidate_scheme \<Rightarrow> bool" where
  "qualifies doc \<longleftrightarrow>
     length (sents_flat doc) \<ge> 10 \<and> length (vertexSet doc) \<ge> 5 \<and>
     length (labels doc) \<ge> 3 \<and> char_count doc > 2000"

text \<open>The dictionary appended at lines 45 to 51 for the record at position \<open>idx\<close>.\<close>

definition wrap :: "nat \<Rightarrow> candidate \<Rightarrow> document" where
  "wrap idx doc =
     \<lparr>title = title doc, sents = sents doc, vertexSet = vertexSet doc, labels = labels doc,
      doc_id = ''docred_'' @ str_nat idx\<rparr>"

text \<open>
  The loop of lines 27 to 54 over the records still to come, \<open>idx\<close> the position of the
  first of them. It returns the selected documents and the records the iteration has
  not taken from the corpus: all of them are taken when the corpus ends, and the
  \<open>break\<close> of line 54 leaves the rest where it is.
\<close>

fun select_loop :: "nat \<Rightarrow> candidate list \<Rightarrow> document list \<Rightarrow> document list \<times> candidate list" where
  "select_loop idx [] selected_docs = (selected_docs, [])"
| "select_loop idx (doc # dataset) selected_docs =
     (if qualifies doc
      then (if length (selected_docs @ [wrap idx doc]) \<ge> 3
            then (selected_docs @ [wrap idx doc], dataset)
            else select_loop (idx + 1) dataset (selected_docs @ [wrap idx doc]))
      else select_loop (idx + 1) dataset selected_docs)"

definition select_docs :: "candidate list \<Rightarrow> document list \<times> candidate list" where
  "select_docs dataset = select_loop 0 dataset []"



text \<open>
  Two records of a corpus to run the filter on: one with a paragraph of 10 sentences of
  200 characters,
  5 entity clusters and 3 labels, which passes every threshold, and a short one, which
  passes none.
\<close>

definition passing_candidate :: candidate where
  "passing_candidate =
     \<lparr>title = ''Long'', sents = [replicate 10 (replicate 200 CHR ''a'')],
      vertexSet = replicate 5 [\<lparr>name = ''E'', sent_id = 0, type = ''PER'', pos = [0, 1]\<rparr>],
      labels = replicate 3 \<lparr>h = 0, t = 1, r = ''P17''\<rparr>\<rparr>"

definition failing_candidate :: candidate where
  "failing_candidate = \<lparr>title = ''Short'', sents = [[''One.'']], vertexSet = [], labels = []\<rparr>"

section \<open>Splitting a text piece by piece\<close>

text \<open>
  The pieces of \<open>xs @ ys\<close> are those of \<open>xs\<close> and of \<open>ys\<close>, the last piece of \<open>xs\<close> joined
  to the first of \<open>ys\<close>. This is used to split the long text literal line by line.
\<close>

fun glue :: "'a list list \<Rightarrow> 'a list list \<Rightarrow> 'a list list" where
  "glue [] b = b"
| "glue [x] [] = [x]"
| "glue [x] (y # ys) = (x @ y) # ys"
| "glue (x # x' # xs) b = x # glue (x' # xs) b"

text \<open>The sentences of the long text, as \<open>full_text_sentences\<close> below computes them.\<close>

definition curie_sentences :: "string list" where
  \<open>curie_sentences =
      [''Marie Curie was born Maria Sklodowska on November 7, 1867, in Warsaw, Poland, which was then part of the Russian Empire'',
     ''She was the youngest of five children born to Wladyslaw Sklodowski and Bronislawa Sklodowska'',
     ''Her father was a mathematics\<newline>and physics teacher at a gymnasium, while her mother was a teacher, pianist, and singer who ran a prestigious boarding school\<newline>for girls in Warsaw'',
     ''The family faced significant financial difficulties after her father lost his teaching position for pro-Polish\<newline>sentiments and her mother died of tuberculosis when Maria was ten years old'',
     ''During her childhood, Maria showed exceptional intelligence and a remarkable memory that impressed her teachers and family'',
     ''She completed her secondary education at a girls' gymnasium in Warsaw at the age of 15 with top honors, earning a gold medal'',
     ''However, as a woman living in occupied Poland under Russian rule, she was not permitted to attend the male-only University\<newline>of Warsaw or any other traditional institution of higher education'',
     ''Determined to pursue her education, she took classes from\<newline>a clandestine institution known as the Flying University, which held classes in changing locations to avoid Russian authorities'',
     ''This underground organization admitted women students and promoted Polish culture and scientific education'',
     ''From 1885 to 1889, Maria worked as a governess\<newline>\<newline>During her childhood, Maria showed exceptional intelligence and a remarkable\<newline>memory'',
     ''She completed high school at the age of 15 with top honors'',
     ''However,\<newline>as a woman in occupied Poland, she was not permitted to attend the male-only\<newline>University of Warsaw'',
     ''She took classes from a clandestine university  that\<newline>admitted women students called the Flying University'',
     ''In 1891, at the age of 24, Maria left Poland to study physics and mathematics\<newline>at the University of Paris, also known as the Sorbonne'',
     ''She enrolled in the\<newline>Faculty of Science and worked extremely hard to overcome the language barrier\<newline>and gaps in her scientific education'',
     ''She lived in poverty during this time,\<newline>often surviving on bread and tea while studying in the library until it closed'',
     ''In 1893, Maria earned her degree in physics with top marks'',
     ''She then earned\<newline>a second degree in mathematics in 1894'',
     ''While working in a laboratory, she met\<newline>Pierre Curie, a French physicist who was teaching at the School of Physics and\<newline>Chemistry'',
     ''They married in 1895 in a simple civil ceremony'',
     ''Marie Curie became fascinated by Henri Becquerel's discovery of mysterious rays\<newline>from uranium in 1896'',
     ''She decided to investigate these rays as the subject of\<newline>her doctoral thesis'',
     ''Using an electrometer invented by Pierre and his brother,\<newline>she discovered that the rays were properties of the element uranium itself,\<newline>not dependent on its form or compounds'',
     ''In 1898, Marie and Pierre Curie discovered two new radioactive elements'',
     ''The first\<newline>was polonium, which Marie named after her homeland Poland'',
     ''The second was radium,\<newline>which they finally isolated in pure form in 1902 after processing tons of pitchblende\<newline>ore'',
     ''The work was extremely dangerous and physically exhausting'',
     ''In 1903, Marie Curie became the first woman to earn a doctorate in France'',
     ''That\<newline>same year, she shared the Nobel Prize in Physics with Pierre Curie and Henri\<newline>Becquerel for their work on radioactivity'',
     ''She was the first woman to win a Nobel\<newline>Prize and the first person to win Nobel Prizes in two different sciences'',
     ''Tragedy struck in 1906 when Pierre Curie was killed in a street accident in Paris'',
     ''Despite her grief, Marie took over his teaching position at the Sorbonne, becoming\<newline>the first woman to teach there'',
     ''She continued her research\<newline> with determination'',
     ''In 1911, Marie Curie won her second Nobel Prize, this time in Chemistry, for\<newline>her discovery and isolation of pure radium and polonium'',
     ''She was the first person\<newline>ever to win two Nobel Prizes'',
     ''She used the prize money to fund her research at\<newline>the Radium Institute in Paris, which she helped establish in 1914'',
     ''During World War I, Marie Curie developed mobile radiography units to provide\<newline>X-ray services to field hospitals'',
     ''She personally drove these units, known as\<newline>"petites Curies," to the front lines'',
     ''She also trained other women to operate\<newline>the equipment'',
     ''Over one million soldiers were examined using her X-ray units'',
     ''After the war, Marie Curie became the director of the Curie Laboratory at the\<newline>Radium Institute'',
     ''She traveled to the United States in 1921 to raise funds for\<newline>radium research'',
     ''President Warren Harding presented her with one gram of radium,\<newline>purchased by American women through a nationwide campaign'',
     ''Throughout her career, Marie Curie published numerous scientific papers and books'',
     ''She trained many students who became prominent scientists themselves'',
     ''She was\<newline>appointed Director of the Curie Laboratory in Paris and held this position until\<newline>her death'',
     ''She promoted international scientific cooperation and served on many\<newline>scientific committees'',
     ''Marie Curie's long exposure to radioactive materials without proper protection\<newline>took its toll on her health'',
     ''She developed cataracts and suffered from various\<newline>illnesses related to radiation exposure'',
     ''On July 4, 1934, she died of aplastic\<newline>anemia at a sanatorium in Passy, France'',
     ''Marie Curie's legacy extends far beyond her scientific discoveries'',
     ''She paved\<newline>the way for women in science and showed that determination and intellect have\<newline>no gender'',
     ''Her daughter Irene Joliot-Curie also won the Nobel Prize in Chemistry\<newline>in 1935'',
     ''In 1995, Marie Curie became the first woman to be entombed on her own\<newline>merits in the Pantheon in Paris'',
     ''Today, the Curie family holds the record for Nobel Prize wins, with five prizes\<newline>among family members'',
     ''Marie Curie's notebooks are still radioactive and are kept\<newline>in lead-lined boxes'',
     ''The unit of radioactivity, the curie, is named in her honor'',
     ''Her life story continues to inspire scientists, especially women in STEM fields,\<newline>around the world'']
  \<close>

section \<open>The sentences of the long text\<close>

lemma py_split_nonempty: "py_split d xs \<noteq> []"
  by (induction xs) (auto split: list.splits)

lemma py_split_append: "py_split d (xs @ ys) = glue (py_split d xs) (py_split d ys)"
proof (induction xs)
  case Nil
  show ?case using py_split_nonempty [of d ys] by (cases "py_split d ys") auto
next
  case (Cons c cs)
  show ?case
  proof (cases "c = d")
    case True
    then show ?thesis using Cons py_split_nonempty [of d cs]
      by (cases "py_split d cs") auto
  next
    case False
    obtain w ws where w: "py_split d cs = w # ws"
      using py_split_nonempty [of d cs] by (cases "py_split d cs") auto
    obtain v vs where v: "py_split d ys = v # vs"
      using py_split_nonempty [of d ys] by (cases "py_split d ys") auto
    show ?thesis using False Cons w v by (cases ws) auto
  qed
qed

lemma py_split_concat_Cons:
  "py_split d (concat (l # ls)) = glue (py_split d l) (py_split d (concat ls))"
  by (simp add: py_split_append)

lemma strip_Nil: "strip [] = []"
  by (simp add: strip_def)

lemma strip_Cons_space: "isspace c \<Longrightarrow> strip (c # cs) = strip cs"
  by (simp add: strip_def)

lemma strip_Cons_keep:
  "\<not> isspace c \<Longrightarrow> \<not> isspace (last (c # cs)) \<Longrightarrow> strip (c # cs) = c # cs"
proof -
  assume a: "\<not> isspace c" and b: "\<not> isspace (last (c # cs))"
  have "hd (rev (c # cs)) = last (c # cs)"
    by (simp add: hd_rev)
  then have "dropWhile isspace (rev (c # cs)) = rev (c # cs)"
    using b by (cases "rev (c # cs)") auto
  then show ?thesis using a by (simp add: strip_def)
qed

lemma sentences_of_filter:
  "sentences_of text = filter (\<lambda>s. s \<noteq> []) (map strip (py_split CHR ''.'' text))"
proof -
  have "concat (map (\<lambda>s. if strip s \<noteq> [] then [strip s] else []) xs) =
        filter (\<lambda>s. s \<noteq> []) (map strip xs)" for xs
    by (induction xs) auto
  then show ?thesis by (simp add: sentences_of_def)
qed

lemma full_text_sentences: "sentences_of full_text = curie_sentences"
  unfolding sentences_of_filter full_text_def
  apply (simp only: py_split_concat_Cons concat.simps(1))
  apply (simp only: py_split.simps glue.simps append.simps list.case char.inject simp_thms
      if_True if_False cong: if_weak_cong list.case_cong_weak)
  apply (simp only: list.map filter.simps strip_Nil strip_Cons_space strip_Cons_keep isspace_def
      last.simps list.distinct set_simps insert_iff empty_iff char.inject simp_thms
      if_True if_False cong: if_weak_cong)
  apply (unfold curie_sentences_def)
  apply (rule refl)
  done

lemma sentences_of_nonempty: "list_all (\<lambda>s. s \<noteq> []) (sentences_of text)"
  by (simp add: sentences_of_filter list_all_iff)

lemma length_join:
  "length (join sep xs) = sum_list (map length xs) + length sep * (length xs - 1)"
  by (induction sep xs rule: join.induct) simp_all

lemma paragraph_unfiltered:
  "list_all (\<lambda>s. s \<noteq> []) xs \<Longrightarrow>
   [s @ ''.''. s \<leftarrow> take 4 (drop i xs), s \<noteq> []] = map (\<lambda>s. s @ ''.'') (take 4 (drop i xs))"
proof -
  assume a: "list_all (\<lambda>s. s \<noteq> []) xs"
  have "list_all (\<lambda>s. s \<noteq> []) ys \<Longrightarrow>
        concat (map (\<lambda>s. if s \<noteq> [] then [s @ ''.''] else []) ys) = map (\<lambda>s. s @ ''.'') ys" for ys
    by (induction ys) auto
  moreover have "list_all (\<lambda>s. s \<noteq> []) (take 4 (drop i xs))"
    using a by (auto simp: list_all_iff dest: in_set_takeD in_set_dropD)
  ultimately show ?thesis by simp
qed

lemma paragraphs_from_unfold:
  "list_all (\<lambda>s. s \<noteq> []) xs \<Longrightarrow>
   paragraphs_from i xs =
     (if i < length xs then map (\<lambda>s. s @ ''.'') (take 4 (drop i xs)) # paragraphs_from (i + 4) xs
      else [])"
  by (subst paragraphs_from.simps) (simp only: paragraph_unfiltered)

lemma concat_paragraphs_from:
  "list_all (\<lambda>s. s \<noteq> []) xs \<Longrightarrow>
   concat (paragraphs_from i xs) = map (\<lambda>s. s @ ''.'') (drop i xs)"
proof (induction i xs rule: paragraphs_from.induct)
  case (1 i xs)
  show ?case
  proof (cases "i < length xs")
    case True
    have "map (\<lambda>s. s @ ''.'') (take 4 (drop i xs)) @ map (\<lambda>s. s @ ''.'') (drop (i + 4) xs) =
          map (\<lambda>s. s @ ''.'') (take 4 (drop i xs) @ drop 4 (drop i xs))"
      by (simp add: add.commute)
    also have "\<dots> = map (\<lambda>s. s @ ''.'') (drop i xs)"
      by (simp only: append_take_drop_id)
    finally show ?thesis
      using True 1 by (subst paragraphs_from_unfold) simp_all
  next
    case False
    then show ?thesis using 1 by (subst paragraphs_from_unfold) simp_all
  qed
qed

lemma length_paragraphs_from:
  "length (paragraphs_from i xs) = (length xs - i + 3) div 4"
proof (induction i xs rule: paragraphs_from.induct)
  case (1 i xs)
  show ?case
  proof (cases "i < length xs")
    case True
    then have "length (paragraphs_from i xs) = Suc ((length xs - (i + 4) + 3) div 4)"
      using 1 by (subst paragraphs_from.simps) simp
    also have "\<dots> = (length xs - i + 3) div 4"
    proof (cases "length xs - i < 4")
      case True
      then show ?thesis using \<open>i < length xs\<close> by simp
    next
      case False
      then have "length xs - i + 3 = (length xs - (i + 4) + 3) + 4" by simp
      then show ?thesis by (simp only: div_add_self2 Suc_eq_plus1)
    qed
    finally show ?thesis .
  next
    case False
    then show ?thesis by (subst paragraphs_from.simps) simp
  qed
qed

lemma nth_paragraphs_from:
  "list_all (\<lambda>s. s \<noteq> []) xs \<Longrightarrow> j < length (paragraphs_from i xs) \<Longrightarrow>
   paragraphs_from i xs ! j = map (\<lambda>s. s @ ''.'') (take 4 (drop (i + 4 * j) xs))"
proof (induction i xs arbitrary: j rule: paragraphs_from.induct)
  case (1 i xs)
  have lt: "i < length xs"
    using "1.prems"(2) by (subst (asm) paragraphs_from.simps) (simp split: if_splits)
  show ?case
  proof (cases j)
    case 0
    then show ?thesis using lt "1.prems"(1) by (subst paragraphs_from_unfold) simp_all
  next
    case (Suc k)
    have "paragraphs_from i xs =
            [s @ ''.''. s \<leftarrow> take 4 (drop i xs), s \<noteq> []] # paragraphs_from (i + 4) xs"
      using lt by (subst paragraphs_from.simps) simp
    then have "k < length (paragraphs_from (i + 4) xs)"
      using "1.prems"(2) Suc by simp
    then have "paragraphs_from (i + 4) xs ! k = map (\<lambda>s. s @ ''.'') (take 4 (drop (i + 4 + 4 * k) xs))"
      using "1.IH" lt "1.prems"(1) by simp
    then show ?thesis
      using lt Suc "1.prems"(1) by (subst paragraphs_from_unfold) (simp_all add: add.assoc)
  qed
qed

lemma segment_flat: "concat (segment text) = map (\<lambda>s. s @ ''.'') (sentences_of text)"
  using concat_paragraphs_from [OF sentences_of_nonempty, of 0 "text"] by (simp add: segment_def)

lemma length_segment: "length (segment text) = (length (sentences_of text) + 3) div 4"
  unfolding segment_def by (simp add: length_paragraphs_from)

lemma length_nth_segment:
  "j < length (segment text) \<Longrightarrow>
   length (segment text ! j) = min 4 (length (sentences_of text) - 4 * j)"
  using nth_paragraphs_from [OF sentences_of_nonempty, of j 0 "text"] by (simp add: segment_def)

lemma sentences_of_example:
  "sentences_of ''A. B. C. D. E.'' = [''A'', ''B'', ''C'', ''D'', ''E'']"
  by (simp add: sentences_of_filter strip_def isspace_def)

lemma segment_example:
  "segment ''A. B. C. D. E.'' = [[''A.'', ''B.'', ''C.'', ''D.''], [''E.'']]"
  unfolding segment_def sentences_of_example
  by (simp add: paragraphs_from.simps [of _ "[''A'', ''B'', ''C'', ''D'', ''E'']"])

lemma segment_empty: "segment [] = []"
  unfolding segment_def by (simp add: sentences_of_filter strip_def paragraphs_from.simps [of _ "[]"])

lemma ceil_div4: "((N::nat) + 3) div 4 = (if N mod 4 = 0 then N div 4 else Suc (N div 4))"
proof -
  have "N mod 4 < 4" by simp
  then consider "N mod 4 = 0" | "N mod 4 = 1" | "N mod 4 = 2" | "N mod 4 = 3" by linarith
  then show ?thesis
  proof cases
    case 1 then show ?thesis by (simp add: div_add1_eq)
  next
    case 2 then show ?thesis by (simp add: div_add1_eq)
  next
    case 3 then show ?thesis by (simp add: div_add1_eq)
  next
    case 4 then show ?thesis by (simp add: div_add1_eq)
  qed
qed

lemma ceil_div4_zero: "((N::nat) + 3) div 4 = 0 \<longleftrightarrow> N = 0"
  by (simp add: div_eq_0_iff)

lemma full_window: "Suc j < ((N::nat) + 3) div 4 \<Longrightarrow> 4 * j + 4 \<le> N"
proof -
  assume "Suc j < (N + 3) div 4"
  then have "Suc (Suc j) \<le> (N + 3) div 4" by simp
  then have "Suc (Suc j) * 4 \<le> N + 3" by (simp only: less_eq_div_iff_mult_less_eq zero_less_numeral)
  then show ?thesis by simp
qed

lemma last_window:
  "0 < (N::nat) \<Longrightarrow> min 4 (N - 4 * ((N + 3) div 4 - 1)) = (if N mod 4 = 0 then 4 else N mod 4)"
proof -
  assume pos: "0 < N"
  have N: "N = 4 * (N div 4) + N mod 4" by simp
  show ?thesis
  proof (cases "N mod 4 = 0")
    case True
    then have q: "0 < N div 4" using pos by (metis N add.right_neutral mult_0_right neq0_conv)
    have "N - 4 * (N div 4 - 1) = 4" using True q N by linarith
    then show ?thesis using True by (simp add: ceil_div4)
  next
    case False
    have "N - 4 * (N div 4) = N mod 4" using N by linarith
    moreover have "N mod 4 < 4" by simp
    ultimately show ?thesis using False by (simp add: ceil_div4)
  qed
qed

text \<open>
  C4. A text with \<open>N\<close> sentences (the pieces between terminators that are not blank)
  is grouped into \<open>ceil(N/4)\<close> paragraphs, none when \<open>N = 0\<close>; every paragraph but the last
  has 4 sentences and the last has \<open>N mod 4\<close>, or 4 when 4 divides \<open>N\<close>; no sentence is
  lost. The text \<open>A. B. C. D. E.\<close> gives paragraphs of sizes 4 and 1, the empty text none.
\<close>

theorem segmenter_paragraphs:
  assumes "length (sentences_of text) = N"
  shows "length (segment text) = (N + 3) div 4
    \<and> (segment text = [] \<longleftrightarrow> N = 0)
    \<and> (\<forall>j. Suc j < length (segment text) \<longrightarrow> length (segment text ! j) = 4)
    \<and> (0 < N \<longrightarrow> length (last (segment text)) = (if N mod 4 = 0 then 4 else N mod 4))
    \<and> length (concat (segment text)) = N
    \<and> map length (segment ''A. B. C. D. E.'') = [4, 1]
    \<and> segment [] = []"
proof -
  have len: "length (segment text) = (N + 3) div 4"
    using assms by (simp add: length_segment)
  have empty: "segment text = [] \<longleftrightarrow> N = 0"
  proof -
    have "segment text = [] \<longleftrightarrow> length (segment text) = 0" by simp
    also have "\<dots> \<longleftrightarrow> N = 0" unfolding len by (rule ceil_div4_zero)
    finally show ?thesis .
  qed
  have full: "length (segment text ! j) = 4" if "Suc j < length (segment text)" for j
  proof -
    have "4 * j + 4 \<le> N" using that unfolding len by (rule full_window)
    moreover have "j < length (segment text)" using that by simp
    ultimately show ?thesis using assms by (simp add: length_nth_segment)
  qed
  have lastp: "length (last (segment text)) = (if N mod 4 = 0 then 4 else N mod 4)" if "0 < N"
  proof -
    have ne: "segment text \<noteq> []" using that empty by simp
    have k: "length (segment text) - 1 < length (segment text)" using ne by simp
    have "last (segment text) = segment text ! (length (segment text) - 1)"
      using ne by (simp add: last_conv_nth)
    then have "length (last (segment text)) = min 4 (N - 4 * (length (segment text) - 1))"
      using k assms by (simp only: length_nth_segment)
    then show ?thesis unfolding len using last_window [OF that] by simp
  qed
  have flat: "length (concat (segment text)) = N"
    using assms by (simp only: segment_flat length_map)
  have ex: "map length (segment ''A. B. C. D. E.'') = [4, 1]"
    by (simp add: segment_example)
  show ?thesis
    using len empty full lastp flat ex segment_empty by blast
qed

theorem segmenter_paragraphs_witness:
  "length (sentences_of ''A. B. C. D. E.'') = 5
   \<and> length (segment ''A. B. C. D. E.'') = 2
   \<and> length (segment ''A. B. C. D. E.'' ! 0) = 4
   \<and> length (last (segment ''A. B. C. D. E.'')) = 1"
proof -
  have n: "length (sentences_of ''A. B. C. D. E.'') = 5"
    by (simp add: sentences_of_example)
  have two: "Suc 0 < length (segment ''A. B. C. D. E.'')"
    by (simp add: segment_example)
  show ?thesis
    using segmenter_paragraphs [OF n] n two by auto
qed

lemma length_curie_sentences: "length curie_sentences = 58"
  unfolding curie_sentences_def by simp

lemma sum_length_curie_sentences: "sum_list (map length curie_sentences) = 5746"
  unfolding curie_sentences_def
  by (simp only: list.map sum_list.Cons sum_list.Nil list.size)

section \<open>The synthetic document\<close>

lemma sents_flat_create:
  "sents_flat create_long_test_document = map (\<lambda>s. s @ ''.'') curie_sentences"
  by (simp add: sents_flat_def create_long_test_document_def assemble_def segment_flat
      full_text_sentences)

lemma char_count_create: "char_count create_long_test_document = 5861"
proof -
  have "sum_list (map length (map (\<lambda>s. s @ ''.'') xs)) =
        sum_list (map length xs) + length xs" for xs :: "string list"
    by (induction xs) simp_all
  then show ?thesis
    by (simp add: char_count_def sents_flat_create length_join sum_length_curie_sentences
        length_curie_sentences)
qed

text \<open>
  C6. The document of the synthetic producer has 5861 characters when its 58 sentences
  are joined, so that its token estimate is 1465: it is not greater than 2000, and the
  chunking trigger is false for it.
\<close>

theorem create_token_estimate:
  "char_count create_long_test_document = 5861
   \<and> token_estimate create_long_test_document = 1465
   \<and> \<not> triggers_chunking create_long_test_document"
  by (simp add: triggers_chunking_def token_estimate_def char_count_create)

text \<open>
  C7. The token estimate is the character count of the sentences joined with single
  spaces, integer-divided by 4. It does not decrease when the character count grows,
  and it is a function of the sentences alone: the same sentences give the same value.
\<close>

theorem token_estimate_policy:
  "token_estimate a = length (join '' '' (concat (sents a))) div 4
   \<and> (char_count a \<le> char_count b \<longrightarrow> token_estimate a \<le> token_estimate b)
   \<and> (sents a = sents b \<longrightarrow> token_estimate a = token_estimate b)"
  by (simp add: token_estimate_def char_count_def sents_flat_def div_le_mono)

theorem token_estimate_policy_witness:
  "char_count (assemble [[''ab'']] [] []) \<le> char_count (assemble [[''abcde'', ''fgh'']] [] [])
   \<and> token_estimate (assemble [[''ab'']] [] []) = 0
   \<and> token_estimate (assemble [[''abcde'', ''fgh'']] [] []) = 2
   \<and> token_estimate (assemble [[''ab'']] [] []) \<le> token_estimate (assemble [[''abcde'', ''fgh'']] [] [])"
proof -
  have le: "char_count (assemble [[''ab'']] [] []) \<le> char_count (assemble [[''abcde'', ''fgh'']] [] [])"
    by (simp add: char_count_def sents_flat_def assemble_def)
  have "token_estimate (assemble [[''ab'']] [] []) \<le> token_estimate (assemble [[''abcde'', ''fgh'']] [] [])"
    using token_estimate_policy [of "assemble [[''ab'']] [] []" "assemble [[''abcde'', ''fgh'']] [] []"] le
    by blast
  then show ?thesis
    using le by (simp add: token_estimate_def char_count_def sents_flat_def assemble_def)
qed

lemma create_invariants:
  "invariant1 create_long_test_document
   \<and> invariant2 create_long_test_document
   \<and> invariant3 create_long_test_document
   \<and> invariant4 create_long_test_document
   \<and> length (vertexSet create_long_test_document) = 8
   \<and> length (sents_flat create_long_test_document) = 58"
proof -
  have v: "vertexSet create_long_test_document = curie_vertexSet"
    and l: "labels create_long_test_document = curie_labels"
    by (simp_all add: create_long_test_document_def assemble_def)
  have n: "length (sents_flat create_long_test_document) = 58"
    by (simp add: sents_flat_create length_curie_sentences)
  have i1: "invariant1 create_long_test_document"
    by (simp add: invariant1_def label_ok_def v l curie_vertexSet_def curie_labels_def)
  have i2: "invariant2 create_long_test_document"
    by (simp add: invariant2_def sent_id_ok_def v n curie_vertexSet_def)
  have i3: "invariant3 create_long_test_document"
    by (simp add: invariant3_def pos_ok_def v curie_vertexSet_def)
  have i4: "invariant4 create_long_test_document"
    by (simp add: invariant4_def v curie_vertexSet_def)
  show ?thesis
    using i1 i2 i3 i4 n by (simp add: v curie_vertexSet_def)
qed

text \<open>
  C10. The document the synthetic producer returns satisfies invariants 1 to 4: its 7
  labels have \<open>h\<close> and \<open>t\<close> among the 8 entity clusters and \<open>h \<noteq> t\<close>; its mentions
  have a \<open>sent_id\<close> below 58, the number of sentences of the segmented text, and a
  \<open>pos\<close> with \<open>0 \<le> start < end\<close>; no cluster is empty.
\<close>

theorem create_satisfies_invariants:
  "invariant1 create_long_test_document
   \<and> invariant2 create_long_test_document
   \<and> invariant3 create_long_test_document
   \<and> invariant4 create_long_test_document
   \<and> length (vertexSet create_long_test_document) = 8
   \<and> length (sents_flat create_long_test_document) = 58"
  by (rule create_invariants)

section \<open>The corpus filter\<close>

lemma qualifies_wrap: "qualifies (wrap idx doc) = qualifies doc"
  by (simp add: qualifies_def wrap_def sents_flat_def char_count_def)

lemma select_loop_fst:
  "length sel < 3 \<Longrightarrow>
   fst (select_loop idx ds sel) =
     take 3 (sel @ map (\<lambda>(i, c). wrap i c) (filter (\<lambda>(i, c). qualifies c) (enumerate idx ds)))"
proof (induction ds arbitrary: idx sel)
  case Nil
  then show ?case by simp
next
  case (Cons d ds)
  show ?case
  proof (cases "qualifies d")
    case False
    then show ?thesis using Cons by simp
  next
    case True
    show ?thesis
    proof (cases "length sel = 2")
      case True
      then show ?thesis using \<open>qualifies d\<close> by simp
    next
      case False
      then have "length (sel @ [wrap idx d]) < 3" using Cons.prems by simp
      then show ?thesis
        using Cons.IH [of "sel @ [wrap idx d]" "Suc idx"] \<open>qualifies d\<close> by simp
    qed
  qed
qed

lemma select_loop_exhausted:
  "length sel + length (filter qualifies ds) < 3 \<Longrightarrow>
   select_loop idx ds sel =
     (sel @ map (\<lambda>(i, c). wrap i c) (filter (\<lambda>(i, c). qualifies c) (enumerate idx ds)), [])"
proof (induction ds arbitrary: idx sel)
  case Nil
  then show ?case by simp
next
  case (Cons d ds)
  show ?case
  proof (cases "qualifies d")
    case False
    then show ?thesis using Cons by simp
  next
    case True
    then have "length (sel @ [wrap idx d]) + length (filter qualifies ds) < 3"
      using Cons.prems by simp
    then show ?thesis
      using Cons.IH [of "sel @ [wrap idx d]" "Suc idx"] True by simp
  qed
qed

lemma select_loop_break:
  "length sel + length (filter qualifies pre) = 2 \<Longrightarrow> qualifies c \<Longrightarrow>
   select_loop idx (pre @ c # ys) sel =
     (sel @ map (\<lambda>(i, c). wrap i c) (filter (\<lambda>(i, c). qualifies c) (enumerate idx (pre @ [c]))), ys)"
proof (induction pre arbitrary: idx sel)
  case Nil
  then show ?case by simp
next
  case (Cons d pre)
  show ?case
  proof (cases "qualifies d")
    case False
    then show ?thesis using Cons by simp
  next
    case True
    then have "length (sel @ [wrap idx d]) + length (filter qualifies pre) = 2"
      using Cons.prems by simp
    then show ?thesis
      using Cons.IH [of "sel @ [wrap idx d]" "Suc idx"] True Cons.prems(2) by simp
  qed
qed

lemma select_docs_fst:
  "fst (select_docs ds) =
     take 3 (map (\<lambda>(i, c). wrap i c) (filter (\<lambda>(i, c). qualifies c) (enumerate 0 ds)))"
  unfolding select_docs_def using select_loop_fst [of "[]" 0 ds] by simp

lemma select_docs_member:
  "d \<in> set (fst (select_docs ds)) \<Longrightarrow>
   \<exists>idx < length ds. qualifies (ds ! idx) \<and> d = wrap idx (ds ! idx)"
proof -
  assume "d \<in> set (fst (select_docs ds))"
  then have "d \<in> set (map (\<lambda>(i, c). wrap i c) (filter (\<lambda>(i, c). qualifies c) (enumerate 0 ds)))"
    unfolding select_docs_fst by (rule in_set_takeD)
  then obtain i c where "(i, c) \<in> set (enumerate 0 ds)" "qualifies c" "d = wrap i c"
    by auto
  then show ?thesis by (auto simp: in_set_enumerate_eq)
qed

lemma qualifies_passing: "qualifies passing_candidate"
  by (simp add: qualifies_def passing_candidate_def sents_flat_def char_count_def length_join
      length_concat sum_list_replicate)

lemma not_qualifies_failing: "\<not> qualifies failing_candidate"
  by (simp add: qualifies_def failing_candidate_def sents_flat_def)

text \<open>
  C2. With the target count 3 of line 53: the filter returns at most 3 documents, each
  of them passes the four thresholds, and they are the first 3 qualifying records in
  source order. When fewer than 3 records qualify the whole corpus is read and exactly
  the qualifying ones are returned, with no error. When a third record qualifies the
  loop stops at it: the records after it are left unread, whatever they are.
\<close>

theorem corpus_filter_selection:
  "length (fst (select_docs ds)) \<le> 3
   \<and> (\<forall>d \<in> set (fst (select_docs ds)).
         length (concat (sents d)) \<ge> 10 \<and> length (vertexSet d) \<ge> 5 \<and> length (labels d) \<ge> 3
         \<and> length (join '' '' (concat (sents d))) > 2000)
   \<and> fst (select_docs ds) =
       take 3 (map (\<lambda>(i, c). wrap i c) (filter (\<lambda>(i, c). qualifies c) (enumerate 0 ds)))
   \<and> (length (filter qualifies ds) < 3 \<longrightarrow>
         select_docs ds =
           (map (\<lambda>(i, c). wrap i c) (filter (\<lambda>(i, c). qualifies c) (enumerate 0 ds)), [])
         \<and> length (fst (select_docs ds)) = length (filter qualifies ds))
   \<and> (length (filter qualifies pre) = 2 \<and> qualifies c \<longrightarrow>
         select_docs (pre @ c # ys) =
           (map (\<lambda>(i, c). wrap i c) (filter (\<lambda>(i, c). qualifies c) (enumerate 0 (pre @ [c]))), ys)
         \<and> length (fst (select_docs (pre @ c # ys))) = 3)"
proof -
  have a: "length (fst (select_docs ds)) \<le> 3"
    by (simp add: select_docs_fst)
  have b: "length (concat (sents d)) \<ge> 10 \<and> length (vertexSet d) \<ge> 5 \<and> length (labels d) \<ge> 3
      \<and> length (join '' '' (concat (sents d))) > 2000" if mem: "d \<in> set (fst (select_docs ds))" for d
  proof -
    obtain idx where "qualifies (ds ! idx)" "d = wrap idx (ds ! idx)"
      using select_docs_member [OF mem] by blast
    then have "qualifies d" by (simp add: qualifies_wrap)
    then show ?thesis by (simp add: qualifies_def sents_flat_def char_count_def)
  qed
  have len: "length (map (\<lambda>(i, c). wrap i c) (filter (\<lambda>(i, c). qualifies c) (enumerate n xs))) =
      length (filter qualifies xs)" for n xs
    by (induction xs arbitrary: n) simp_all
  have d: "select_docs ds =
           (map (\<lambda>(i, c). wrap i c) (filter (\<lambda>(i, c). qualifies c) (enumerate 0 ds)), [])
         \<and> length (fst (select_docs ds)) = length (filter qualifies ds)"
    if "length (filter qualifies ds) < 3"
    unfolding select_docs_def using select_loop_exhausted [of "[]" ds 0] that len [of 0 ds] by simp
  have e: "select_docs (pre @ c # ys) =
           (map (\<lambda>(i, c). wrap i c) (filter (\<lambda>(i, c). qualifies c) (enumerate 0 (pre @ [c]))), ys)
         \<and> length (fst (select_docs (pre @ c # ys))) = 3"
    if "length (filter qualifies pre) = 2" "qualifies c"
    unfolding select_docs_def
    using select_loop_break [of "[]" pre c 0 ys] that len [of 0 "pre @ [c]"] by simp
  show ?thesis
    using a b select_docs_fst [of ds] d e by blast
qed

theorem corpus_filter_selection_witness:
  "select_docs [failing_candidate, passing_candidate, failing_candidate, passing_candidate,
                failing_candidate] =
     ([wrap 1 passing_candidate, wrap 3 passing_candidate], [])
   \<and> select_docs ([passing_candidate, passing_candidate, failing_candidate] @ passing_candidate #
                   [passing_candidate, failing_candidate]) =
     ([wrap 0 passing_candidate, wrap 1 passing_candidate, wrap 3 passing_candidate],
      [passing_candidate, failing_candidate])
   \<and> length (join '' '' (concat (sents (wrap 1 passing_candidate)))) > 2000"
proof -
  let ?ds = "[failing_candidate, passing_candidate, failing_candidate, passing_candidate,
              failing_candidate]"
  let ?pre = "[passing_candidate, passing_candidate, failing_candidate]"
  let ?ys = "[passing_candidate, failing_candidate]"
  note inst = corpus_filter_selection [of ?ds ?pre passing_candidate ?ys]
  have few: "length (filter qualifies ?ds) < 3"
    by (simp add: qualifies_passing not_qualifies_failing)
  have two: "length (filter qualifies ?pre) = 2 \<and> qualifies passing_candidate"
    by (simp add: qualifies_passing not_qualifies_failing)
  have one: "select_docs ?ds = ([wrap 1 passing_candidate, wrap 3 passing_candidate], [])"
    using inst few by (simp add: qualifies_passing not_qualifies_failing numeral_3_eq_3)
  have three: "select_docs (?pre @ passing_candidate # ?ys) =
      ([wrap 0 passing_candidate, wrap 1 passing_candidate, wrap 3 passing_candidate], ?ys)"
    using inst two by (simp add: qualifies_passing not_qualifies_failing numeral_3_eq_3)
  have "wrap 1 passing_candidate \<in> set (fst (select_docs ?ds))"
    by (simp only: one fst_conv) simp
  then have "length (join '' '' (concat (sents (wrap 1 passing_candidate)))) > 2000"
    using inst by blast
  then show ?thesis using one three by blast
qed

lemma digit_char_inj: "m < 10 \<Longrightarrow> n < 10 \<Longrightarrow> digit_char m = digit_char n \<Longrightarrow> m = n"
proof -
  assume m: "m < 10" and n: "n < 10" and eq: "digit_char m = digit_char n"
  have "of_char (digit_char m) = (of_char (digit_char n) :: nat)" using eq by simp
  then have "(48 + m) mod 256 = (48 + n) mod 256"
    by (simp only: digit_char_def of_char_of)
  then show ?thesis using m n by simp
qed

lemma str_nat_nonempty: "str_nat n \<noteq> []"
  by (subst str_nat.simps) simp

lemma str_nat_inj: "str_nat m = str_nat n \<Longrightarrow> m = n"
proof (induction m arbitrary: n rule: str_nat.induct)
  case (1 m)
  show ?case
  proof (cases "m < 10")
    case True
    then have m: "str_nat m = [digit_char m]" by (subst str_nat.simps) simp
    show ?thesis
    proof (cases "n < 10")
      case True
      then have "str_nat n = [digit_char n]" by (subst str_nat.simps) simp
      then show ?thesis using m "1.prems" \<open>m < 10\<close> True by (simp add: digit_char_inj)
    next
      case False
      then have "str_nat n = str_nat (n div 10) @ [digit_char (n mod 10)]"
        by (subst str_nat.simps) simp
      then show ?thesis using m "1.prems" str_nat_nonempty [of "n div 10"] by simp
    qed
  next
    case False
    then have m: "str_nat m = str_nat (m div 10) @ [digit_char (m mod 10)]"
      by (subst str_nat.simps) simp
    show ?thesis
    proof (cases "n < 10")
      case True
      then have "str_nat n = [digit_char n]" by (subst str_nat.simps) simp
      then show ?thesis using m "1.prems" str_nat_nonempty [of "m div 10"] by simp
    next
      case nbig: False
      then have "str_nat n = str_nat (n div 10) @ [digit_char (n mod 10)]"
        by (subst str_nat.simps) simp
      then have "str_nat (m div 10) = str_nat (n div 10)"
        and d: "digit_char (m mod 10) = digit_char (n mod 10)"
        using m "1.prems" by simp_all
      then have "m div 10 = n div 10" using "1.IH" False by simp
      moreover have "m mod 10 = n mod 10" using d by (simp add: digit_char_inj)
      ultimately show ?thesis by (metis div_mult_mod_eq)
    qed
  qed
qed

text \<open>
  C8. Every document the filter emits is the record at some position \<open>idx\<close> of the
  corpus, a qualifying one, wrapped: its id is \<open>docred_\<close> followed by the decimal digits
  of \<open>idx\<close>, so that it depends on the position alone and differs between positions, and
  its title, sentences, entity clusters and labels are those of the record, unchanged
  and unchecked.
\<close>

theorem corpus_filter_wrap:
  "(d \<in> set (fst (select_docs ds)) \<longrightarrow>
      (\<exists>idx < length ds. qualifies (ds ! idx) \<and> d = wrap idx (ds ! idx)))
   \<and> doc_id (wrap idx c) = ''docred_'' @ str_nat idx
   \<and> title (wrap idx c) = title c
   \<and> sents (wrap idx c) = sents c
   \<and> vertexSet (wrap idx c) = vertexSet c
   \<and> labels (wrap idx c) = labels c
   \<and> (doc_id (wrap i c) = doc_id (wrap j c') \<longleftrightarrow> i = j)"
proof -
  have "(doc_id (wrap i c) = doc_id (wrap j c')) = (i = j)"
    using str_nat_inj [of i j] by (auto simp: wrap_def)
  then show ?thesis
    using select_docs_member [of d ds] by (simp add: wrap_def)
qed

theorem corpus_filter_wrap_witness:
  "wrap 1 passing_candidate \<in> set (fst (select_docs [failing_candidate, passing_candidate]))
   \<and> (\<exists>idx < 2. qualifies ([failing_candidate, passing_candidate] ! idx)
         \<and> wrap 1 passing_candidate = wrap idx ([failing_candidate, passing_candidate] ! idx))
   \<and> doc_id (wrap 1 passing_candidate) = ''docred_1''"
proof -
  have mem: "wrap 1 passing_candidate \<in> set (fst (select_docs [failing_candidate, passing_candidate]))"
    by (simp add: select_docs_fst qualifies_passing not_qualifies_failing)
  have id: "doc_id (wrap 1 passing_candidate) = ''docred_1''"
  proof -
    have "digit_char 1 = CHR ''1''" by code_simp
    then have "str_nat 1 = ''1''" by (subst str_nat.simps) simp
    then show ?thesis by (simp add: wrap_def)
  qed
  have "\<exists>idx < length [failing_candidate, passing_candidate].
      qualifies ([failing_candidate, passing_candidate] ! idx)
      \<and> wrap 1 passing_candidate = wrap idx ([failing_candidate, passing_candidate] ! idx)"
    using corpus_filter_wrap [of "wrap 1 passing_candidate" "[failing_candidate, passing_candidate]"
        1 passing_candidate 1 1 passing_candidate] mem
    by blast
  then show ?thesis
    using mem id by (simp add: numeral_2_eq_2)
qed


section \<open>The fixture store\<close>

lemma append_and_save_list:
  "fs path = Some (Json (JList existing)) \<Longrightarrow>
   append_and_save path doc fs = Inr (fs(path \<mapsto> Json (JList (existing @ [json_of_document doc]))))"
  by (simp add: append_and_save_def py_append_def load_existing_def)

lemma append_and_save_all_list:
  "fs path = Some (Json (JList existing)) \<Longrightarrow>
   \<exists>fs'. append_and_save_all path docs fs = Inr fs'
     \<and> fs' path = Some (Json (JList (existing @ map json_of_document docs)))
     \<and> (\<forall>q. q \<noteq> path \<longrightarrow> fs' q = fs q)"
proof (induction docs arbitrary: fs existing)
  case Nil
  then show ?case by simp
next
  case (Cons doc docs)
  let ?fs1 = "fs(path \<mapsto> Json (JList (existing @ [json_of_document doc])))"
  have step: "append_and_save path doc fs = Inr ?fs1"
    using Cons.prems append_and_save_list [of fs path existing doc] by blast
  have "?fs1 path = Some (Json (JList (existing @ [json_of_document doc])))" by simp
  then obtain fs' where fs': "append_and_save_all path docs ?fs1 = Inr fs'"
      "fs' path = Some (Json (JList ((existing @ [json_of_document doc]) @ map json_of_document docs)))"
      "\<forall>q. q \<noteq> path \<longrightarrow> fs' q = ?fs1 q"
    using Cons.IH [of ?fs1 "existing @ [json_of_document doc]"] by blast
  show ?case
    using step fs' by simp
qed

text \<open>
  C3. When the file at the path holds a list, loading it, appending and saving, and
  loading again gives the list that was there with the new documents after it, in
  order: one document for a run of the store step, the documents of successive runs for
  several. The entries that were there are kept as they are, whatever they are, and
  no other file changes.
\<close>

theorem fixture_store_round_trip:
  assumes "fs path = Some (Json (JList existing))"
  shows "load_existing fs path = JList existing
    \<and> append_and_save path doc fs =
        Inr (fs(path \<mapsto> Json (JList (existing @ [json_of_document doc]))))
    \<and> (\<exists>fs'. append_and_save_all path docs fs = Inr fs'
          \<and> load_existing fs' path = JList (existing @ map json_of_document docs)
          \<and> (\<forall>q. q \<noteq> path \<longrightarrow> fs' q = fs q))"
proof -
  have a: "load_existing fs path = JList existing"
    using assms by (simp add: load_existing_def)
  obtain fs' where fs': "append_and_save_all path docs fs = Inr fs'"
      "fs' path = Some (Json (JList (existing @ map json_of_document docs)))"
      "\<forall>q. q \<noteq> path \<longrightarrow> fs' q = fs q"
    using append_and_save_all_list [of fs path existing docs] assms by blast
  have "load_existing fs' path = JList (existing @ map json_of_document docs)"
    using fs'(2) by (simp add: load_existing_def)
  then show ?thesis
    using a append_and_save_list [of fs path existing doc] assms fs'(1,3) by blast
qed

theorem fixture_store_round_trip_witness:
  "create_main (Map.empty(output_path_create \<mapsto> Json (JList [JInt 7]))) =
     Inr (Map.empty(output_path_create \<mapsto>
       Json (JList [JInt 7, json_of_document create_long_test_document])))
   \<and> load_existing (Map.empty(output_path_create \<mapsto>
       Json (JList [JInt 7, json_of_document create_long_test_document]))) output_path_create =
     JList [JInt 7, json_of_document create_long_test_document]"
proof -
  have f: "(Map.empty(output_path_create \<mapsto> Json (JList [JInt 7]))) output_path_create =
      Some (Json (JList [JInt 7]))"
    by simp
  have "create_main (Map.empty(output_path_create \<mapsto> Json (JList [JInt 7]))) =
     Inr (Map.empty(output_path_create \<mapsto>
       Json (JList [JInt 7, json_of_document create_long_test_document])))"
    using fixture_store_round_trip [of "Map.empty(output_path_create \<mapsto> Json (JList [JInt 7]))"
        output_path_create "[JInt 7]" create_long_test_document "[]"] f
    by (simp add: create_main_def)
  then show ?thesis by (simp add: load_existing_def)
qed

text \<open>
  C5, as the code has it. When there is no file at the path, or the file there is not
  well-formed JSON, the load gives the empty list without raising, and the store step
  goes on from it: the append gives the list of the one new document, and that list is
  what the save writes. The save itself is outside the \<open>try\<close>: where the directory of the
  path does not exist, opening the path for writing raises \<open>FileNotFoundError\<close> and
  nothing is written. A file that is well-formed JSON is not covered: its value is
  taken as it is.
\<close>

theorem fixture_store_fail_open:
  assumes "fs path = None \<or> fs path = Some NoDirectory \<or> fs path = Some NotJson"
  shows "load_existing fs path = JList []
    \<and> py_append (load_existing fs path) (json_of_document doc) =
        Inr (JList [json_of_document doc])
    \<and> append_and_save path doc fs =
        (if fs path = Some NoDirectory then Inl FileNotFoundError
         else Inr (fs(path \<mapsto> Json (JList [json_of_document doc]))))"
  using assms by (auto simp: load_existing_def append_and_save_def py_append_def)

theorem fixture_store_fail_open_witness:
  "load_existing Map.empty output_path_create = JList []
   \<and> create_main Map.empty =
     Inr (Map.empty(output_path_create \<mapsto> Json (JList [json_of_document create_long_test_document])))
   \<and> load_existing (Map.empty(output_path_create \<mapsto> NotJson)) output_path_create = JList []
   \<and> create_main (Map.empty(output_path_create \<mapsto> NotJson)) =
     Inr (Map.empty(output_path_create \<mapsto> Json (JList [json_of_document create_long_test_document])))
   \<and> load_existing (Map.empty(output_path_create \<mapsto> NoDirectory)) output_path_create = JList []
   \<and> create_main (Map.empty(output_path_create \<mapsto> NoDirectory)) = Inl FileNotFoundError"
proof -
  have a: "Map.empty output_path_create = None
      \<or> Map.empty output_path_create = Some NoDirectory
      \<or> Map.empty output_path_create = Some NotJson"
    by simp
  have b: "(Map.empty(output_path_create \<mapsto> NotJson)) output_path_create = None
      \<or> (Map.empty(output_path_create \<mapsto> NotJson)) output_path_create = Some NoDirectory
      \<or> (Map.empty(output_path_create \<mapsto> NotJson)) output_path_create = Some NotJson"
    by simp
  have c: "(Map.empty(output_path_create \<mapsto> NoDirectory)) output_path_create = None
      \<or> (Map.empty(output_path_create \<mapsto> NoDirectory)) output_path_create = Some NoDirectory
      \<or> (Map.empty(output_path_create \<mapsto> NoDirectory)) output_path_create = Some NotJson"
    by simp
  show ?thesis
    using fixture_store_fail_open [of Map.empty output_path_create create_long_test_document] a
      fixture_store_fail_open [of "Map.empty(output_path_create \<mapsto> NotJson)" output_path_create
        create_long_test_document] b
      fixture_store_fail_open [of "Map.empty(output_path_create \<mapsto> NoDirectory)" output_path_create
        create_long_test_document] c
    by (simp add: create_main_def)
qed

text \<open>
  C5 as stated fails: a file holding the JSON object \<open>{}\<close> is not a collection, yet the
  load returns the object, not the empty list, and the run ends in \<open>AttributeError\<close> at
  \<open>existing_docs.append\<close>; nothing is written.
\<close>

theorem fail_open_counterexample:
  "load_existing (Map.empty(output_path_create \<mapsto> Json (JDict []))) output_path_create = JDict []
   \<and> load_existing (Map.empty(output_path_create \<mapsto> Json (JDict []))) output_path_create \<noteq> JList []
   \<and> create_main (Map.empty(output_path_create \<mapsto> Json (JDict []))) = Inl AttributeError"
  by (simp add: load_existing_def create_main_def append_and_save_def py_append_def)

section \<open>The assembler\<close>

lemma entry_id_document: "entry_id (json_of_document doc) = Some (doc_id doc)"
  by (simp add: entry_id_def json_of_document_def)

text \<open>
  C1, as the code has it. The assembler checks nothing and never fails: for any
  paragraphs, entity table and relation table it returns a document that holds them
  unchanged, under the fixed title and the fixed, non-empty id. The document the
  script builds, from its own tables, satisfies invariants 1 to 4.
\<close>

theorem assembler_copies_tables:
  "sents (assemble paragraphs entities relations) = paragraphs
   \<and> vertexSet (assemble paragraphs entities relations) = entities
   \<and> labels (assemble paragraphs entities relations) = relations
   \<and> title (assemble paragraphs entities relations) = ''Marie Curie (Long Article)''
   \<and> doc_id (assemble paragraphs entities relations) = ''long_doc_marie_curie''
   \<and> id_nonempty (assemble paragraphs entities relations)
   \<and> create_long_test_document = assemble (segment full_text) curie_vertexSet curie_labels
   \<and> invariant1 create_long_test_document
   \<and> invariant2 create_long_test_document
   \<and> invariant3 create_long_test_document
   \<and> invariant4 create_long_test_document"
  using create_invariants
  by (simp add: assemble_def id_nonempty_def create_long_test_document_def)

text \<open>
  C1 as stated fails. With three entity clusters and the label \<open>{h: 0, t: 5, r: "P19"}\<close>
  the assembler returns a document that holds the label, and so does not satisfy
  invariant 1; the same with a label whose \<open>h\<close> and \<open>t\<close> are both 1. And the id is not
  checked against the collection: the script run twice, starting without a file, leaves
  a collection with the same document twice, whose ids are not unique.
\<close>

theorem assembler_validation_counterexample:
  "labels (assemble [[''A.'']]
      [[\<lparr>name = ''X'', sent_id = 0, type = ''PER'', pos = [0, 1]\<rparr>],
       [\<lparr>name = ''Y'', sent_id = 0, type = ''PER'', pos = [1, 2]\<rparr>],
       [\<lparr>name = ''Z'', sent_id = 0, type = ''PER'', pos = [2, 3]\<rparr>]]
      [\<lparr>h = 0, t = 5, r = ''P19''\<rparr>]) = [\<lparr>h = 0, t = 5, r = ''P19''\<rparr>]
   \<and> \<not> invariant1 (assemble [[''A.'']]
      [[\<lparr>name = ''X'', sent_id = 0, type = ''PER'', pos = [0, 1]\<rparr>],
       [\<lparr>name = ''Y'', sent_id = 0, type = ''PER'', pos = [1, 2]\<rparr>],
       [\<lparr>name = ''Z'', sent_id = 0, type = ''PER'', pos = [2, 3]\<rparr>]]
      [\<lparr>h = 0, t = 5, r = ''P19''\<rparr>])
   \<and> \<not> invariant1 (assemble [[''A.'']]
      [[\<lparr>name = ''X'', sent_id = 0, type = ''PER'', pos = [0, 1]\<rparr>],
       [\<lparr>name = ''Y'', sent_id = 0, type = ''PER'', pos = [1, 2]\<rparr>],
       [\<lparr>name = ''Z'', sent_id = 0, type = ''PER'', pos = [2, 3]\<rparr>]]
      [\<lparr>h = 1, t = 1, r = ''P19''\<rparr>])
   \<and> create_main Map.empty =
       Inr (Map.empty(output_path_create \<mapsto>
         Json (JList [json_of_document create_long_test_document])))
   \<and> create_main (Map.empty(output_path_create \<mapsto>
         Json (JList [json_of_document create_long_test_document]))) =
       Inr (Map.empty(output_path_create \<mapsto>
         Json (JList [json_of_document create_long_test_document,
                      json_of_document create_long_test_document])))
   \<and> \<not> ids_unique [json_of_document create_long_test_document,
                      json_of_document create_long_test_document]"
proof -
  have a: "create_main Map.empty =
       Inr (Map.empty(output_path_create \<mapsto>
         Json (JList [json_of_document create_long_test_document])))"
    by (simp add: create_main_def append_and_save_def py_append_def load_existing_def)
  have b: "create_main (Map.empty(output_path_create \<mapsto>
         Json (JList [json_of_document create_long_test_document]))) =
       Inr (Map.empty(output_path_create \<mapsto>
         Json (JList [json_of_document create_long_test_document,
                      json_of_document create_long_test_document])))"
    by (simp add: create_main_def append_and_save_def py_append_def load_existing_def)
  have c: "\<not> ids_unique [json_of_document create_long_test_document,
                      json_of_document create_long_test_document]"
    by (simp add: ids_unique_def List.map_filter_simps entry_id_document)
  show ?thesis
    using a b c by (simp add: assemble_def invariant1_def label_ok_def)
qed

end
